theory Spec2Isabelle
  imports Main
begin

section \<open>The translation unit \<^verbatim>\<open>src-tauri/build/windows/delayload_stub.c\<close>\<close>

text \<open>
  The file is fourteen lines long: five comment lines, a blank line, an
  \<^verbatim>\<open>#ifdef _MSC_VER\<close> block holding two \<^verbatim>\<open>#pragma comment\<close> lines, a blank
  line, two comment lines and one function definition with an empty body.
  It is modelled line by line, so that the list below can be read against
  the file.  What a toolchain does with the lines (conditional inclusion,
  its diagnostics, recording the pragmas in the object file, entering the
  definition in the symbol table) is the small front end defined after it.
\<close>

subsection \<open>Source lines\<close>

text \<open>The two forms of \<^verbatim>\<open>#pragma comment(kind, "argument")\<close> the file uses.\<close>

datatype comment_kind = Linker | Lib

datatype ctype = CVoid | CInt | CPointer ctype

text \<open>
  A definition without a storage-class specifier has external linkage;
  \<^verbatim>\<open>static\<close> would give it internal linkage.
\<close>

datatype linkage = External | Internal

text \<open>
  A function definition.  The parameter list \<^verbatim>\<open>(void)\<close> is the empty list.
  The body is the list of the statements between the braces, each statement
  a step on the program state that returns the next state, or \<open>None\<close> when
  it does not return.
\<close>

record 's fundef =
  fd_linkage :: linkage
  fd_ret :: ctype
  fd_name :: string
  fd_params :: "ctype list"
  fd_body :: "('s \<Rightarrow> 's option) list"

datatype 's line =
    Comment string
  | Blank
  | Ifdef string
  | Endif
  | Pragma_comment comment_kind string
  | Definition "'s fundef"

text \<open>Line 14: \<^verbatim>\<open>void uicp_force_comctl32_delayload(void) {}\<close>\<close>

definition uicp_force_comctl32_delayload :: "'s fundef" where
  "uicp_force_comctl32_delayload =
     \<lparr>fd_linkage = External, fd_ret = CVoid,
      fd_name = ''uicp_force_comctl32_delayload'',
      fd_params = [], fd_body = []\<rparr>"

text \<open>The whole file, lines 1 to 14.\<close>

definition delayload_stub :: "'s line list" where
  "delayload_stub =
    [Comment ''WHY: Instruct the MSVC linker to delay-load comctl32.dll so that tests and the compute harness'',
     Comment ''can start on hosts where v6 is unavailable. The Rust side provides a failure hook and a'',
     Comment ''TaskDialogIndirect loader/stub so missing exports don't crash the process at startup.'',
     Comment ''INVARIANT: This object must be linked into test/harness builds and link with delayimp.'',
     Comment ''ERROR: E-UICP-0101 should never occur at compile time; file presence ensures build succeeds.'',
     Blank,
     Ifdef ''_MSC_VER'',
     Pragma_comment Linker ''/delayload:comctl32.dll'',
     Pragma_comment Lib ''comctl32.lib'',
     Endif,
     Blank,
     Comment ''Export a symbol that Rust references to force the object to be linked.'',
     Comment ''The function has no side effects; its presence pulls in the linker pragmas above.'',
     Definition uicp_force_comctl32_delayload]"

subsection \<open>Toolchains and object files\<close>

text \<open>
  A toolchain is known by four things: the macros defined when it reads
  the file (its own and those of the command line); whether it accepts
  \<^verbatim>\<open>//\<close> line comments (C99 and later, and most compilers as an extension;
  a compiler held to C90 reads the two slashes as tokens and rejects the
  line); whether its compiler records \<^verbatim>\<open>#pragma comment\<close> in the object
  file; and whether a pragma it does not know is an error (as with
  \<^verbatim>\<open>-Wall -Werror\<close>) or is ignored.
\<close>

record toolchain =
  predefined :: "string set"
  line_comments :: bool
  pragma_comment :: bool
  unknown_pragma_error :: bool

text \<open>
  An object file: the linker directives embedded in it, in source order,
  and its symbol table.
\<close>

record 's object =
  drectve :: "(comment_kind \<times> string) list"
  symtab :: "'s fundef list"

datatype error =
    Endif_without_if
  | Unterminated_conditional
  | Redefinition string
  | Line_comment_rejected
  | Unknown_pragma

subsection \<open>Preprocessing\<close>

text \<open>
  The stack holds one flag for every open \<^verbatim>\<open>#ifdef\<close>: whether its group
  is included.  A line is kept when every enclosing group is.  Comments and
  blank lines are dropped.
\<close>

fun preprocess :: "string set \<Rightarrow> bool list \<Rightarrow> 's line list \<Rightarrow> error + 's line list" where
  "preprocess M stk [] = (if stk = [] then Inr [] else Inl Unterminated_conditional)"
| "preprocess M stk (Ifdef m # ls) = preprocess M ((m \<in> M) # stk) ls"
| "preprocess M stk (Endif # ls) =
     (case stk of [] \<Rightarrow> Inl Endif_without_if | _ # stk' \<Rightarrow> preprocess M stk' ls)"
| "preprocess M stk (Comment _ # ls) = preprocess M stk ls"
| "preprocess M stk (Blank # ls) = preprocess M stk ls"
| "preprocess M stk (l # ls) =
     (if False \<in> set stk then preprocess M stk ls
      else (case preprocess M stk ls of Inl e \<Rightarrow> Inl e | Inr ls' \<Rightarrow> Inr (l # ls')))"

text \<open>
  The macros guarding each line: every line paired with the names of the
  \<^verbatim>\<open>#ifdef\<close> groups open where it stands, innermost first.
\<close>

fun guards :: "string list \<Rightarrow> 's line list \<Rightarrow> (string list \<times> 's line) list" where
  "guards g [] = []"
| "guards g (Ifdef m # ls) = (g, Ifdef m) # guards (m # g) ls"
| "guards g (Endif # ls) = (tl g, Endif) # guards (tl g) ls"
| "guards g (l # ls) = (g, l) # guards g ls"

definition definition_guards :: "'s line list \<Rightarrow> (string \<times> string list) list" where
  "definition_guards tu = [(fd_name f, g). (g, Definition f) \<leftarrow> guards [] tu]"

definition pragma_guards :: "'s line list \<Rightarrow> ((comment_kind \<times> string) \<times> string list) list" where
  "pragma_guards tu = [((k, a), g). (g, Pragma_comment k a) \<leftarrow> guards [] tu]"

subsection \<open>Translation\<close>

text \<open>
  The lines that survive preprocessing are translated in order: a pragma
  is appended to the directives when the compiler records it, a definition
  is entered in the symbol table, and defining a name twice is an error.
\<close>

fun translate :: "toolchain \<Rightarrow> 's line list \<Rightarrow> 's object \<Rightarrow> error + 's object" where
  "translate tc [] obj = Inr obj"
| "translate tc (Pragma_comment k a # ls) obj =
     translate tc ls
       (if pragma_comment tc then obj\<lparr>drectve := drectve obj @ [(k, a)]\<rparr> else obj)"
| "translate tc (Definition f # ls) obj =
     (if fd_name f \<in> set (map fd_name (symtab obj)) then Inl (Redefinition (fd_name f))
      else translate tc ls (obj\<lparr>symtab := symtab obj @ [f]\<rparr>))"
| "translate tc (_ # ls) obj = translate tc ls obj"

text \<open>
  \<open>compile\<close> is the translation alone: what the object file holds, read
  off the lines.  Whether the front end accepts the lines in the first
  place is \<open>diagnose\<close> below, and \<open>build\<close> puts the two together.
\<close>

definition compile :: "toolchain \<Rightarrow> 's line list \<Rightarrow> error + 's object" where
  "compile tc tu =
     (case preprocess (predefined tc) [] tu of
        Inl e \<Rightarrow> Inl e
      | Inr ls \<Rightarrow> translate tc ls \<lparr>drectve = [], symtab = []\<rparr>)"

text \<open>The directives the translation embeds; none when it fails.\<close>

definition directives :: "toolchain \<Rightarrow> 's line list \<Rightarrow> (comment_kind \<times> string) list" where
  "directives tc tu = (case compile tc tu of Inl e \<Rightarrow> [] | Inr obj \<Rightarrow> drectve obj)"

subsection \<open>Diagnostics\<close>

text \<open>
  The first error the front end reports, reading the lines in order.  Only
  lines of included groups are diagnosed.  A comment line is an error when
  the toolchain does not accept line comments.  A \<^verbatim>\<open>#pragma comment\<close> line
  is an error when the compiler does not know the pragma and treats an
  unknown pragma as an error.
\<close>

fun diagnose :: "toolchain \<Rightarrow> bool list \<Rightarrow> 's line list \<Rightarrow> error option" where
  "diagnose tc stk [] = None"
| "diagnose tc stk (Ifdef m # ls) = diagnose tc ((m \<in> predefined tc) # stk) ls"
| "diagnose tc stk (Endif # ls) = diagnose tc (tl stk) ls"
| "diagnose tc stk (Comment c # ls) =
     (if False \<notin> set stk \<and> \<not> line_comments tc then Some Line_comment_rejected
      else diagnose tc stk ls)"
| "diagnose tc stk (Pragma_comment k a # ls) =
     (if False \<notin> set stk \<and> \<not> pragma_comment tc \<and> unknown_pragma_error tc
      then Some Unknown_pragma
      else diagnose tc stk ls)"
| "diagnose tc stk (l # ls) = diagnose tc stk ls"

text \<open>
  A build of the file: the front end's diagnostics, and the translation
  when there is none.
\<close>

definition build :: "toolchain \<Rightarrow> 's line list \<Rightarrow> error + 's object" where
  "build tc tu = (case diagnose tc [] tu of Some e \<Rightarrow> Inl e | None \<Rightarrow> compile tc tu)"

subsection \<open>What the linker reads from the directives\<close>

text \<open>
  \<^verbatim>\<open>comment(lib, "L")\<close> asks the linker to search the library \<open>L\<close>;
  \<^verbatim>\<open>comment(linker, "/delayload:D")\<close> passes the option that makes the
  imports of the library \<open>D\<close> delay-loaded.
\<close>

definition default_libs :: "(comment_kind \<times> string) list \<Rightarrow> string list" where
  "default_libs ds = [a. (k, a) \<leftarrow> ds, k = Lib]"

definition delayloaded :: "(comment_kind \<times> string) list \<Rightarrow> string list" where
  "delayloaded ds =
     [drop 11 a. (k, a) \<leftarrow> ds, k = Linker, take 11 a = ''/delayload:'']"

text \<open>
  The helper library that implements the delay-load thunks, named in the
  comment on line 4 of the file (``link with delayimp'').
\<close>

definition delayimp :: string where
  "delayimp = ''delayimp''"

definition delayimp_lib :: string where
  "delayimp_lib = delayimp @ ''.lib''"

text \<open>Whether the text \<open>p\<close> occurs in \<open>s\<close>.\<close>

fun mentions :: "string \<Rightarrow> string \<Rightarrow> bool" where
  "mentions p [] = (p = [])"
| "mentions p (c # cs) = (take (length p) (c # cs) = p \<or> mentions p cs)"

text \<open>The arguments of every pragma line of a file, guarded or not.\<close>

definition pragma_args :: "'s line list \<Rightarrow> string list" where
  "pragma_args tu = [a. Pragma_comment k a \<leftarrow> tu]"



subsection \<open>Symbol resolution and calls\<close>

text \<open>
  A reference to a name from another translation unit resolves to the
  first definition of that name with external linkage among the objects
  of the link.
\<close>

definition exported :: "'s object \<Rightarrow> 's fundef list" where
  "exported obj = filter (\<lambda>f. fd_linkage f = External) (symtab obj)"

definition resolve :: "'s object list \<Rightarrow> string \<Rightarrow> 's fundef option" where
  "resolve objs n = find (\<lambda>f. fd_name f = n) (concat (map exported objs))"

text \<open>
  Running a body: the statements in order, from the state at the call; the
  result is the state at the return, and \<open>None\<close> when a statement does not
  return.  The number of statements run is counted beside it.
\<close>

fun exec_body :: "('s \<Rightarrow> 's option) list \<Rightarrow> nat \<times> 's \<Rightarrow> (nat \<times> 's) option" where
  "exec_body [] (n, s) = Some (n, s)"
| "exec_body (c # cs) (n, s) =
     (case c s of None \<Rightarrow> None | Some s' \<Rightarrow> exec_body cs (Suc n, s'))"

definition invoke :: "'s fundef \<Rightarrow> 's \<Rightarrow> (nat \<times> 's) option" where
  "invoke f s = exec_body (fd_body f) (0, s)"

text \<open>
  Translating the file with a toolchain, linking a consumer that refers to
  a name, and calling it from a state.
\<close>

datatype 's outcome =
    Build_failed error
  | Unresolved string
  | Diverged
  | Returned 's

definition run :: "toolchain \<Rightarrow> 's line list \<Rightarrow> string \<Rightarrow> 's \<Rightarrow> 's outcome" where
  "run tc tu n s =
     (case compile tc tu of
        Inl e \<Rightarrow> Build_failed e
      | Inr obj \<Rightarrow>
          (case resolve [obj] n of
             None \<Rightarrow> Unresolved n
           | Some f \<Rightarrow>
               (case invoke f s of None \<Rightarrow> Diverged | Some (k, s') \<Rightarrow> Returned s')))"

text \<open>
  Toolchains to evaluate on: one like MSVC; one like GCC as it comes; GCC
  held to C90 (\<^verbatim>\<open>gcc -std=c90\<close>); and GCC with warnings as errors and the
  macro given on the command line (\<^verbatim>\<open>gcc -Wall -Werror -D_MSC_VER\<close>).
\<close>

definition msvc :: toolchain where
  "msvc = \<lparr>predefined = {''_MSC_VER'', ''_WIN32''}, line_comments = True,
           pragma_comment = True, unknown_pragma_error = False\<rparr>"

definition gcc :: toolchain where
  "gcc = \<lparr>predefined = {''__GNUC__''}, line_comments = True,
          pragma_comment = False, unknown_pragma_error = False\<rparr>"



text \<open>
  A consuming object that defines \<^verbatim>\<open>main\<close> and nothing else, to link the
  file's object with.
\<close>

definition consumer :: "'s object" where
  "consumer =
     \<lparr>drectve = [],
      symtab = [\<lparr>fd_linkage = External, fd_ret = CInt, fd_name = ''main'',
                 fd_params = [], fd_body = [Some]\<rparr>]\<rparr>"

section \<open>What every build of the file produces\<close>

lemma preprocess_delayload_stub:
  "preprocess M [] (delayload_stub :: 's line list) =
     Inr (if ''_MSC_VER'' \<in> M
          then [Pragma_comment Linker ''/delayload:comctl32.dll'',
                Pragma_comment Lib ''comctl32.lib'',
                Definition uicp_force_comctl32_delayload]
          else [Definition uicp_force_comctl32_delayload])"
  by (simp add: delayload_stub_def)

lemma compile_delayload_stub:
  "compile tc (delayload_stub :: 's line list) =
     Inr \<lparr>drectve =
            (if ''_MSC_VER'' \<in> predefined tc \<and> pragma_comment tc
             then [(Linker, ''/delayload:comctl32.dll''), (Lib, ''comctl32.lib'')]
             else []),
          symtab = [uicp_force_comctl32_delayload]\<rparr>"
  by (simp add: compile_def preprocess_delayload_stub)




lemma directives_delayload_stub:
  "directives tc (delayload_stub :: 's line list) =
     (if ''_MSC_VER'' \<in> predefined tc \<and> pragma_comment tc
      then [(Linker, ''/delayload:comctl32.dll''), (Lib, ''comctl32.lib'')]
      else [])"
  by (simp add: directives_def compile_delayload_stub)

lemma invoke_uicp_force:
  "invoke uicp_force_comctl32_delayload s = Some (0, s)"
  by (simp add: invoke_def uicp_force_comctl32_delayload_def)

lemma resolve_uicp_force:
  "resolve [\<lparr>drectve = ds, symtab = [uicp_force_comctl32_delayload]\<rparr>]
     ''uicp_force_comctl32_delayload'' = Some uicp_force_comctl32_delayload"
  by (simp add: resolve_def exported_def uicp_force_comctl32_delayload_def)

lemma pragma_args_delayload_stub:
  "pragma_args (delayload_stub :: 's line list) =
     [''/delayload:comctl32.dll'', ''comctl32.lib'']"
  by (simp add: pragma_args_def delayload_stub_def)

lemma msvc_hyps: "''_MSC_VER'' \<in> predefined msvc" "pragma_comment msvc"
  by (simp_all add: msvc_def)

lemma find_append_none:
  "find P xs = None \<Longrightarrow> find P (xs @ ys) = find P ys"
  by (induction xs) (auto split: if_splits)

lemma find_name_none:
  "n \<notin> set (map fd_name fs) \<Longrightarrow> find (\<lambda>f. fd_name f = n) fs = None"
  by (auto simp: find_None_iff)

lemma consumer_exports:
  "map fd_name (exported (consumer :: 's object)) = [''main'']"
  by (simp add: consumer_def exported_def)

section \<open>The delay-load directives\<close>

text \<open>
  Claim C1, as the code has it.  Where \<^verbatim>\<open>_MSC_VER\<close> is defined and the
  compiler records \<^verbatim>\<open>#pragma comment\<close>, the one library the object file
  asks the linker for is \<^verbatim>\<open>comctl32.lib\<close>, the import library of the
  delay-loaded DLL.  The helper library of delay loading, \<^verbatim>\<open>delayimp.lib\<close>,
  is not asked for.
\<close>

theorem lib_pragma_requests_comctl32:
  assumes "''_MSC_VER'' \<in> predefined tc" and "pragma_comment tc"
  shows "default_libs (directives tc (delayload_stub :: 's line list)) = [''comctl32.lib'']
       \<and> delayimp_lib \<notin> set (default_libs (directives tc (delayload_stub :: 's line list)))"
  using assms
  by (simp add: directives_delayload_stub default_libs_def delayimp_lib_def delayimp_def)

theorem lib_pragma_requests_comctl32_witness:
  "''_MSC_VER'' \<in> predefined msvc \<and> pragma_comment msvc
   \<and> default_libs (directives msvc (delayload_stub :: unit line list)) = [''comctl32.lib'']
   \<and> delayimp_lib \<notin> set (default_libs (directives msvc (delayload_stub :: unit line list)))"
  using msvc_hyps lib_pragma_requests_comctl32 [OF msvc_hyps, where 's = unit]
  by blast

text \<open>
  Claim C1, as the specification words it, fails: built with the
  MSVC-like toolchain, the object file does not name \<^verbatim>\<open>delayimp.lib\<close> among
  the libraries it asks the linker for.
\<close>

theorem helper_library_not_requested:
  "delayimp_lib \<notin> set (default_libs (directives msvc (delayload_stub :: unit line list)))"
  by (simp add: directives_delayload_stub default_libs_def delayimp_lib_def delayimp_def
      msvc_def)

text \<open>
  Claim C2.  Where \<^verbatim>\<open>_MSC_VER\<close> is defined and the compiler records
  \<^verbatim>\<open>#pragma comment\<close>, the object file carries the linker option
  \<^verbatim>\<open>/delayload:comctl32.dll\<close>, and \<^verbatim>\<open>comctl32.dll\<close> is the library the
  linker is told to delay-load.
\<close>

theorem delayload_directive_emitted:
  assumes "''_MSC_VER'' \<in> predefined tc" and "pragma_comment tc"
  shows "(Linker, ''/delayload:comctl32.dll'') \<in> set (directives tc (delayload_stub :: 's line list))
       \<and> delayloaded (directives tc (delayload_stub :: 's line list)) = [''comctl32.dll'']"
  using assms
  by (simp add: directives_delayload_stub delayloaded_def)

theorem delayload_directive_emitted_witness:
  "''_MSC_VER'' \<in> predefined msvc \<and> pragma_comment msvc
   \<and> (Linker, ''/delayload:comctl32.dll'') \<in> set (directives msvc (delayload_stub :: unit line list))
   \<and> delayloaded (directives msvc (delayload_stub :: unit line list)) = [''comctl32.dll'']"
  using msvc_hyps delayload_directive_emitted [OF msvc_hyps, where 's = unit]
  by blast




text \<open>
  Claim C10.  Where \<^verbatim>\<open>_MSC_VER\<close> is defined and the compiler records
  \<^verbatim>\<open>#pragma comment\<close>, the object file carries exactly two directives, the
  linker option \<^verbatim>\<open>/delayload:comctl32.dll\<close> and the library request for
  \<^verbatim>\<open>comctl32.lib\<close>.  No pragma line of the file, in any build, has
  \<^verbatim>\<open>delayimp.lib\<close> as its argument or mentions \<^verbatim>\<open>delayimp\<close> at all.
\<close>

theorem exactly_two_directives:
  assumes "''_MSC_VER'' \<in> predefined tc" and "pragma_comment tc"
  shows "directives tc (delayload_stub :: 's line list) =
           [(Linker, ''/delayload:comctl32.dll''), (Lib, ''comctl32.lib'')]
       \<and> delayimp_lib \<notin> set (pragma_args (delayload_stub :: 's line list))
       \<and> filter (mentions delayimp) (pragma_args (delayload_stub :: 's line list)) = []"
  using assms
  by (simp add: directives_delayload_stub pragma_args_delayload_stub
      delayimp_lib_def delayimp_def)

theorem exactly_two_directives_witness:
  "''_MSC_VER'' \<in> predefined msvc \<and> pragma_comment msvc
   \<and> directives msvc (delayload_stub :: unit line list) =
       [(Linker, ''/delayload:comctl32.dll''), (Lib, ''comctl32.lib'')]
   \<and> delayimp_lib \<notin> set (pragma_args (delayload_stub :: unit line list))
   \<and> filter (mentions delayimp) (pragma_args (delayload_stub :: unit line list)) = []"
  using msvc_hyps exactly_two_directives [OF msvc_hyps, where 's = unit]
  by blast

section \<open>The exported function\<close>

text \<open>
  Claim C3.  The function \<^verbatim>\<open>uicp_force_comctl32_delayload\<close> is declared
  with no parameter and the return type \<^verbatim>\<open>void\<close>, and a call from any
  program state returns with that state unchanged.
\<close>

theorem uicp_force_no_effect:
  "fd_params (uicp_force_comctl32_delayload :: 's fundef) = []
   \<and> fd_ret (uicp_force_comctl32_delayload :: 's fundef) = CVoid
   \<and> map_option snd (invoke uicp_force_comctl32_delayload (s :: 's)) = Some s"
  by (simp add: invoke_uicp_force) (simp add: uicp_force_comctl32_delayload_def)

text \<open>
  Claim C7.  Every call of \<^verbatim>\<open>uicp_force_comctl32_delayload\<close> returns, and
  it returns at once: the body is empty, and no statement is run between
  the call and the return.
\<close>

theorem uicp_force_terminates:
  "(\<exists>s'. invoke uicp_force_comctl32_delayload (s :: 's) = Some (0, s'))
   \<and> invoke uicp_force_comctl32_delayload s \<noteq> None
   \<and> fd_body (uicp_force_comctl32_delayload :: 's fundef) = []"
  by (simp add: invoke_uicp_force) (simp add: uicp_force_comctl32_delayload_def)

text \<open>
  Claim C5.  Whatever the toolchain, the object file built from
  \<^verbatim>\<open>delayload_stub.c\<close> has \<^verbatim>\<open>uicp_force_comctl32_delayload\<close> in its symbol
  table with external linkage, and a reference to that name from another
  object of the link, one that does not export the name itself, resolves
  to this definition.
\<close>

theorem uicp_force_exported:
  assumes "''uicp_force_comctl32_delayload'' \<notin> set (map fd_name (exported (c :: 's object)))"
  shows "\<exists>obj. compile tc (delayload_stub :: 's line list) = Inr obj
           \<and> uicp_force_comctl32_delayload \<in> set (symtab obj)
           \<and> fd_linkage (uicp_force_comctl32_delayload :: 's fundef) = External
           \<and> map fd_name (exported obj) = [''uicp_force_comctl32_delayload'']
           \<and> resolve [c, obj] ''uicp_force_comctl32_delayload''
               = Some uicp_force_comctl32_delayload"
proof -
  let ?obj = "\<lparr>drectve =
                  (if ''_MSC_VER'' \<in> predefined tc \<and> pragma_comment tc
                   then [(Linker, ''/delayload:comctl32.dll''), (Lib, ''comctl32.lib'')]
                   else []),
                symtab = [uicp_force_comctl32_delayload :: 's fundef]\<rparr>"
  have ext: "fd_linkage (uicp_force_comctl32_delayload :: 's fundef) = External"
    by (simp add: uicp_force_comctl32_delayload_def)
  have nm: "fd_name (uicp_force_comctl32_delayload :: 's fundef)
              = ''uicp_force_comctl32_delayload''"
    by (simp add: uicp_force_comctl32_delayload_def)
  have exp: "exported ?obj = [uicp_force_comctl32_delayload]"
    by (simp add: exported_def ext)
  have "find (\<lambda>f. fd_name f = ''uicp_force_comctl32_delayload'') (exported c) = None"
    using assms by (rule find_name_none)
  then have res: "resolve [c, ?obj] ''uicp_force_comctl32_delayload''
                    = Some uicp_force_comctl32_delayload"
    by (simp add: resolve_def find_append_none exp nm)
  have "compile tc (delayload_stub :: 's line list) = Inr ?obj"
    by (rule compile_delayload_stub)
  with ext exp res nm show ?thesis
    by simp
qed

theorem uicp_force_exported_witness:
  "''uicp_force_comctl32_delayload'' \<notin> set (map fd_name (exported (consumer :: unit object)))
   \<and> (\<exists>obj. compile gcc (delayload_stub :: unit line list) = Inr obj
          \<and> uicp_force_comctl32_delayload \<in> set (symtab obj)
          \<and> fd_linkage (uicp_force_comctl32_delayload :: unit fundef) = External
          \<and> map fd_name (exported obj) = [''uicp_force_comctl32_delayload'']
          \<and> resolve [consumer, obj] ''uicp_force_comctl32_delayload''
              = Some uicp_force_comctl32_delayload)"
proof -
  have h: "''uicp_force_comctl32_delayload'' \<notin> set (map fd_name (exported (consumer :: unit object)))"
    by (simp add: consumer_exports)
  from h uicp_force_exported [OF h, of gcc] show ?thesis
    by blast
qed

text \<open>
  Claim C9.  The definition of \<^verbatim>\<open>uicp_force_comctl32_delayload\<close> stands under
  no \<^verbatim>\<open>#ifdef\<close>, while both pragma lines stand under \<^verbatim>\<open>_MSC_VER\<close>.  So
  the definition survives preprocessing whatever macros are defined, and
  with every toolchain the object file exports the name and a reference to
  it resolves.
\<close>

theorem definition_outside_guard:
  "definition_guards (delayload_stub :: 's line list)
     = [(''uicp_force_comctl32_delayload'', [])]
   \<and> pragma_guards (delayload_stub :: 's line list)
     = [((Linker, ''/delayload:comctl32.dll''), [''_MSC_VER'']),
        ((Lib, ''comctl32.lib''), [''_MSC_VER''])]
   \<and> (\<exists>ls. preprocess M [] (delayload_stub :: 's line list) = Inr ls
          \<and> Definition uicp_force_comctl32_delayload \<in> set ls)
   \<and> (\<exists>obj. compile tc (delayload_stub :: 's line list) = Inr obj
          \<and> resolve [obj] ''uicp_force_comctl32_delayload''
              = Some uicp_force_comctl32_delayload)"
proof -
  have g: "definition_guards (delayload_stub :: 's line list)
             = [(''uicp_force_comctl32_delayload'', [])]"
    by (simp add: definition_guards_def delayload_stub_def uicp_force_comctl32_delayload_def)
  have p: "pragma_guards (delayload_stub :: 's line list)
             = [((Linker, ''/delayload:comctl32.dll''), [''_MSC_VER'']),
                ((Lib, ''comctl32.lib''), [''_MSC_VER''])]"
    by (simp add: pragma_guards_def delayload_stub_def)
  have pp: "\<exists>ls. preprocess M [] (delayload_stub :: 's line list) = Inr ls
              \<and> Definition uicp_force_comctl32_delayload \<in> set ls"
    by (simp add: preprocess_delayload_stub)
  have c: "\<exists>obj. compile tc (delayload_stub :: 's line list) = Inr obj
             \<and> resolve [obj] ''uicp_force_comctl32_delayload''
                 = Some uicp_force_comctl32_delayload"
    by (simp add: compile_delayload_stub resolve_uicp_force)
  from g p pp c show ?thesis
    by blast
qed

section \<open>Builds and runs\<close>




text \<open>
  Claim C8.  The function takes no argument, and translating the file with
  any toolchain and calling the function from any state has one outcome:
  the call returns and the state is the state of the call.  Two toolchains
  give the same outcome from the same state.
\<close>

theorem run_input_independent:
  "fd_params (uicp_force_comctl32_delayload :: 's fundef) = []
   \<and> run tc1 delayload_stub ''uicp_force_comctl32_delayload'' (s1 :: 's) = Returned s1
   \<and> run tc2 delayload_stub ''uicp_force_comctl32_delayload'' (s2 :: 's) = Returned s2
   \<and> run tc1 delayload_stub ''uicp_force_comctl32_delayload'' s1
       = run tc2 delayload_stub ''uicp_force_comctl32_delayload'' s1"
proof -
  have r: "run tc delayload_stub ''uicp_force_comctl32_delayload'' s = Returned s"
    for tc and s :: 's
    by (simp add: run_def compile_delayload_stub resolve_uicp_force invoke_uicp_force)
  have "fd_params (uicp_force_comctl32_delayload :: 's fundef) = []"
    by (simp add: uicp_force_comctl32_delayload_def)
  with r show ?thesis
    by simp
qed

end
